theory Spec2Isabelle
  imports Complex_Main "HOL-Library.Multiset" "HOL-Library.AList"
begin

section \<open>Number and date model\<close>

text \<open>
  The Python program computes with \<^verbatim>\<open>float\<close> values. They are idealised here as
  \<^typ>\<open>real\<close> numbers: comparisons, \<^verbatim>\<open>max\<close>, \<^verbatim>\<open>min\<close>, sums and quotients are the exact
  ones, so rounding, infinities and NaN are outside this development.

  A naive \<^verbatim>\<open>datetime\<close> is represented by the number of microseconds since a fixed
  epoch; the order of \<^verbatim>\<open>datetime\<close> values is the order of these numbers, and the
  \<^verbatim>\<open>.days\<close> field of a difference is the difference divided by one day, rounded
  towards minus infinity (as \<^verbatim>\<open>timedelta\<close> normalises it).
\<close>

type_synonym datetime = int

definition timedelta_days :: "datetime \<Rightarrow> datetime \<Rightarrow> int" where
  "timedelta_days a b = (a - b) div 86400000000"

section \<open>health\_lp.py\<close>

subsection \<open>HealthMetric\<close>

record HealthMetric =
  name :: string
  "value" :: real
  lower_threshold :: real
  upper_threshold :: real
  category :: string
  is_flagged :: bool

text \<open>The dataclass constructor as the code calls it: \<^verbatim>\<open>is_flagged\<close> defaults to False.\<close>

definition HealthMetric_init :: "string \<Rightarrow> real \<Rightarrow> real \<Rightarrow> real \<Rightarrow> string \<Rightarrow> HealthMetric" where
  "HealthMetric_init n v lo hi c =
     \<lparr>name = n, value = v, lower_threshold = lo, upper_threshold = hi,
      category = c, is_flagged = False\<rparr>"

text \<open>\<^verbatim>\<open>check_flag\<close> stores the flag in the metric and returns it.\<close>

definition check_flag :: "HealthMetric \<Rightarrow> bool \<times> HealthMetric" where
  "check_flag self =
     (let flag = (value self < lower_threshold self \<or> value self > upper_threshold self)
      in (flag, self\<lparr>is_flagged := flag\<rparr>))"

subsection \<open>SleepData and the model state\<close>

record SleepData =
  date :: datetime
  sleep_duration_hours :: real
  sleep_quality_score :: real
  sleep_efficiency :: real

record HealthLP =
  target_sleep_hours :: real
  metrics :: "HealthMetric list"
  sleep_history :: "SleepData list"

text \<open>
  Every method of \<^verbatim>\<open>HealthLP\<close> is a function from the state before the call to the
  returned value and the state after the call.
\<close>

definition HealthLP_init :: "real \<Rightarrow> HealthLP" where
  "HealthLP_init target = \<lparr>target_sleep_hours = target, metrics = [], sleep_history = []\<rparr>"

definition add_metric ::
  "string \<Rightarrow> real \<Rightarrow> real \<Rightarrow> real \<Rightarrow> string \<Rightarrow> HealthLP \<Rightarrow> HealthMetric \<times> HealthLP" where
  "add_metric n v lo hi c self =
     (let metric = HealthMetric_init n v lo hi c;
          metric = snd (check_flag metric)
      in (metric, self\<lparr>metrics := metrics self @ [metric]\<rparr>))"

text \<open>
  \<^verbatim>\<open>list.sort(key=...)\<close> is a stable sort; so is \<^const>\<open>sort_key\<close>, and the result of a
  stable sort is determined by the list and the key.
\<close>

definition add_sleep_data :: "datetime \<Rightarrow> real \<Rightarrow> real \<Rightarrow> real \<Rightarrow> HealthLP \<Rightarrow> unit \<times> HealthLP" where
  "add_sleep_data d duration quality efficiency self =
     (let sleep_data = \<lparr>date = d, sleep_duration_hours = duration,
                        sleep_quality_score = quality, sleep_efficiency = efficiency\<rparr>;
          self = self\<lparr>sleep_history := sleep_history self @ [sleep_data]\<rparr>
      in ((), self\<lparr>sleep_history := sort_key date (sleep_history self)\<rparr>))"

text \<open>The \<^verbatim>\<open>for\<close> loop of \<^verbatim>\<open>calculate_sleep_debt\<close>, with \<^verbatim>\<open>total_debt\<close> as accumulator.\<close>

fun sleep_debt_loop :: "real \<Rightarrow> SleepData list \<Rightarrow> real \<Rightarrow> real" where
  "sleep_debt_loop target [] total_debt = total_debt"
| "sleep_debt_loop target (sleep_data # rest) total_debt =
     (let deficit = target - sleep_duration_hours sleep_data
      in sleep_debt_loop target rest
           (if deficit > 0 then total_debt + deficit else total_debt))"

definition calculate_sleep_debt :: "datetime \<Rightarrow> datetime \<Rightarrow> HealthLP \<Rightarrow> real \<times> HealthLP" where
  "calculate_sleep_debt start_date end_date self =
     (let period_sleep =
            filter (\<lambda>s. start_date \<le> date s \<and> date s \<le> end_date) (sleep_history self)
      in (sleep_debt_loop (target_sleep_hours self) period_sleep 0, self))"

definition default_max_acceptable_debt :: real where
  "default_max_acceptable_debt = 99 / 100"

definition get_sleep_debt_metric ::
  "datetime \<Rightarrow> datetime \<Rightarrow> real \<Rightarrow> HealthLP \<Rightarrow> HealthMetric \<times> HealthLP" where
  "get_sleep_debt_metric start_date end_date max_acceptable_debt self =
     (let (sleep_debt, self) = calculate_sleep_debt start_date end_date self;
          metric = HealthMetric_init ''Sleep Debt'' sleep_debt 0 max_acceptable_debt ''Sleep'';
          metric = snd (check_flag metric)
      in (metric, self))"

text \<open>
  The dictionary built by \<^verbatim>\<open>evaluate_all_metrics\<close> keeps its keys in insertion order; it
  is an association list. A new category is added at the end with the one metric, a
  known category gets the metric appended to its list.
\<close>

type_synonym flagged_dict = "(string \<times> HealthMetric list) list"

definition append_flagged :: "HealthMetric \<Rightarrow> flagged_dict \<Rightarrow> flagged_dict" where
  "append_flagged metric d =
     (case map_of d (category metric) of
        None \<Rightarrow> d @ [(category metric, [metric])]
      | Some l \<Rightarrow> AList.update (category metric) (l @ [metric]) d)"

fun evaluate_loop :: "HealthMetric list \<Rightarrow> flagged_dict \<Rightarrow> flagged_dict" where
  "evaluate_loop [] flagged_by_cat = flagged_by_cat"
| "evaluate_loop (metric # rest) flagged_by_cat =
     evaluate_loop rest
       (if is_flagged metric then append_flagged metric flagged_by_cat else flagged_by_cat)"

definition evaluate_all_metrics :: "HealthLP \<Rightarrow> flagged_dict \<times> HealthLP" where
  "evaluate_all_metrics self = (evaluate_loop (metrics self) [], self)"

definition get_total_flagged_count :: "HealthLP \<Rightarrow> int \<times> HealthLP" where
  "get_total_flagged_count self =
     (sum_list (map (\<lambda>m. 1) (filter is_flagged (metrics self))), self)"

definition category_weights :: "(string \<times> real) list" where
  "category_weights = [(''Sleep'', 3 / 10), (''Cardiovascular'', 3 / 10), (''Activity'', 4 / 10)]"

definition category_weight :: "string \<Rightarrow> real" where
  "category_weight c = (case map_of category_weights c of Some w \<Rightarrow> w | None \<Rightarrow> 1 / 10)"

text \<open>The normalised value after clamping, computed when the range is not degenerate.\<close>

definition normalized_clamped :: "HealthMetric \<Rightarrow> real" where
  "normalized_clamped metric =
     (let normalized = (value metric - lower_threshold metric) /
                       (upper_threshold metric - lower_threshold metric)
      in max 0 (min 1 normalized))"

text \<open>The score that one pass of the loop of \<^verbatim>\<open>optimize_health_score\<close> gives a metric.\<close>

definition metric_score :: "HealthMetric \<Rightarrow> real" where
  "metric_score metric =
     (if upper_threshold metric > lower_threshold metric then
        (let normalized = normalized_clamped metric
         in if is_flagged metric then (if normalized < 1 / 2 then 3 / 10 else 7 / 10)
            else normalized)
      else (if \<not> is_flagged metric then 1 else 1 / 2))"

fun score_loop :: "HealthMetric list \<Rightarrow> real \<Rightarrow> real \<Rightarrow> real \<times> real" where
  "score_loop [] total_score total_weight = (total_score, total_weight)"
| "score_loop (metric # rest) total_score total_weight =
     (let weight = category_weight (category metric);
          score = metric_score metric
      in score_loop rest (total_score + score * weight) (total_weight + weight))"

definition optimize_health_score :: "HealthLP \<Rightarrow> real \<times> HealthLP" where
  "optimize_health_score self =
     (if metrics self = [] then (100, self)
      else (let (total_score, total_weight) = score_loop (metrics self) 0 0
            in if total_weight = 0 then (100, self)
               else ((total_score / total_weight) * 100, self)))"

definition reset :: "HealthLP \<Rightarrow> unit \<times> HealthLP" where
  "reset self = ((), self\<lparr>metrics := [], sleep_history := []\<rparr>)"

section \<open>report\_generator.py\<close>

text \<open>
  The report is a dictionary with fixed keys; the nested dictionaries \<^verbatim>\<open>period\<close>,
  \<^verbatim>\<open>reference_period\<close> and \<^verbatim>\<open>sleep_debt\<close> are records whose field names carry a
  prefix.
\<close>

record period_info =
  p_start :: datetime
  p_end :: datetime
  p_days :: int

record sleep_debt_info =
  sd_value :: real
  sd_is_flagged :: bool
  sd_target :: real

record report =
  patient_email :: string
  report_date :: datetime
  period :: period_info
  reference_period :: "period_info option"
  total_flagged :: int
  flagged_by_category :: flagged_dict
  health_score :: real
  sleep_debt :: sleep_debt_info

text \<open>
  \<^verbatim>\<open>next((i for i, m in enumerate(xs) if P m), None)\<close>: the index of the first element
  that satisfies \<open>P\<close>, counted from \<open>i\<close>.
\<close>

fun next_index :: "('a \<Rightarrow> bool) \<Rightarrow> 'a list \<Rightarrow> nat \<Rightarrow> nat option" where
  "next_index P [] i = None"
| "next_index P (x # xs) i = (if P x then Some i else next_index P xs (Suc i))"

text \<open>
  The generator's state is the model it refers to. A \<^verbatim>\<open>datetime\<close> is always true in a
  condition, so \<^verbatim>\<open>if reference_start and reference_end\<close> tests that neither is None.
\<close>

definition generate_report ::
  "string \<Rightarrow> datetime \<Rightarrow> datetime \<Rightarrow> datetime \<Rightarrow> datetime option \<Rightarrow> datetime option \<Rightarrow>
   HealthLP \<Rightarrow> report \<times> HealthLP" where
  "generate_report email rdate period_start period_end reference_start reference_end lp_model =
     (let period_days = timedelta_days period_end period_start + 1;
          (sleep_debt_metric, lp_model) =
             get_sleep_debt_metric period_start period_end default_max_acceptable_debt lp_model;
          existing_sleep_debt_idx =
             next_index (\<lambda>m. name m = ''Sleep Debt'') (metrics lp_model) 0;
          lp_model =
            (case existing_sleep_debt_idx of
               Some i \<Rightarrow> lp_model\<lparr>metrics := (metrics lp_model)[i := sleep_debt_metric]\<rparr>
             | None \<Rightarrow> lp_model\<lparr>metrics := metrics lp_model @ [sleep_debt_metric]\<rparr>);
          (flagged_by_cat, lp_model) = evaluate_all_metrics lp_model;
          (total_flagged_count, lp_model) = get_total_flagged_count lp_model;
          reference_info =
            (case (reference_start, reference_end) of
               (Some rs, Some re) \<Rightarrow>
                 Some \<lparr>p_start = rs, p_end = re, p_days = timedelta_days re rs + 1\<rparr>
             | _ \<Rightarrow> None);
          (score, lp_model) = optimize_health_score lp_model
      in (\<lparr>patient_email = email, report_date = rdate,
           period = \<lparr>p_start = period_start, p_end = period_end, p_days = period_days\<rparr>,
           reference_period = reference_info,
           total_flagged = total_flagged_count,
           flagged_by_category = flagged_by_cat,
           health_score = score,
           sleep_debt = \<lparr>sd_value = value sleep_debt_metric,
                         sd_is_flagged = is_flagged sleep_debt_metric,
                         sd_target = target_sleep_hours lp_model\<rparr>\<rparr>,
          lp_model))"

section \<open>Sequences of public operations\<close>

text \<open>
  The public operations of the model and of the report generator, and the state that a
  sequence of them reaches from a freshly constructed model.
\<close>

datatype operation =
    AddMetric string real real real string
  | AddSleepData datetime real real real
  | CalculateSleepDebt datetime datetime
  | GetSleepDebtMetric datetime datetime real
  | EvaluateAllMetrics
  | GetTotalFlaggedCount
  | OptimizeHealthScore
  | Reset
  | GenerateReport string datetime datetime datetime "datetime option" "datetime option"

fun exec :: "operation \<Rightarrow> HealthLP \<Rightarrow> HealthLP" where
  "exec (AddMetric n v lo hi c) m = snd (add_metric n v lo hi c m)"
| "exec (AddSleepData d h q e) m = snd (add_sleep_data d h q e m)"
| "exec (CalculateSleepDebt s e) m = snd (calculate_sleep_debt s e m)"
| "exec (GetSleepDebtMetric s e mx) m = snd (get_sleep_debt_metric s e mx m)"
| "exec EvaluateAllMetrics m = snd (evaluate_all_metrics m)"
| "exec GetTotalFlaggedCount m = snd (get_total_flagged_count m)"
| "exec OptimizeHealthScore m = snd (optimize_health_score m)"
| "exec Reset m = snd (reset m)"
| "exec (GenerateReport email rd ps pe rs re) m = snd (generate_report email rd ps pe rs re m)"

fun run :: "operation list \<Rightarrow> HealthLP \<Rightarrow> HealthLP" where
  "run [] m = m"
| "run (op # ops) m = run ops (exec op m)"

section \<open>Definitions used to state the properties\<close>

text \<open>A metric's stored flag agrees with its value and thresholds.\<close>

definition flag_ok :: "HealthMetric \<Rightarrow> bool" where
  "flag_ok x = (is_flagged x = (value x < lower_threshold x \<or> value x > upper_threshold x))"

text \<open>
  The replace-or-append step that \<^verbatim>\<open>generate_report\<close> performs on the metric list, as a
  function of the list, and the same step by recursion over the list.
\<close>

definition upsert_sleep_debt :: "HealthMetric \<Rightarrow> HealthMetric list \<Rightarrow> HealthMetric list" where
  "upsert_sleep_debt sdm ms =
     (case next_index (\<lambda>m. name m = ''Sleep Debt'') ms 0 of
        Some i \<Rightarrow> ms[i := sdm] | None \<Rightarrow> ms @ [sdm])"

fun upsert_rec :: "HealthMetric \<Rightarrow> HealthMetric list \<Rightarrow> HealthMetric list" where
  "upsert_rec sdm [] = [sdm]"
| "upsert_rec sdm (x # xs) = (if name x = ''Sleep Debt'' then sdm # xs else x # upsert_rec sdm xs)"

text \<open>Concrete runs on which the theorems below are instantiated.\<close>

definition demo_ops :: "operation list" where
  "demo_ops =
     [AddSleepData 0 7 70 85,
      AddMetric ''Steps'' 8500 10000 20000 ''Activity'',
      GenerateReport ''example@email.com'' 0 0 0 None None,
      AddMetric ''VO2 Max'' 42 40 60 ''Cardiovascular'',
      GenerateReport ''example@email.com'' 0 0 0 None None]"

definition ledger_ops :: "operation list" where
  "ledger_ops = [AddSleepData 20 6 70 85, AddSleepData 10 9 70 85, AddSleepData 30 5 70 85,
                 AddSleepData 15 (15 / 2) 70 85]"

text \<open>
  A metric with a degenerate range, the two metrics of the scoring scenarios, a run with a
  repeated date, and the seven nights that \<^verbatim>\<open>main.py\<close> records (dates in microseconds
  from the first night).
\<close>

definition degenerate_metric :: HealthMetric where
  "degenerate_metric = fst (add_metric ''Body Temperature'' 5 10 10 ''Vitals'' (HealthLP_init 8))"

definition steps_metric :: HealthMetric where
  "steps_metric = fst (add_metric ''Steps'' 8500 10000 20000 ''Activity'' (HealthLP_init 8))"

definition vo2_metric :: HealthMetric where
  "vo2_metric = fst (add_metric ''VO2 Max'' 42 40 60 ''Cardiovascular'' (HealthLP_init 8))"

definition duplicate_ops :: "operation list" where
  "duplicate_ops = [AddSleepData 20 6 70 85, AddSleepData 10 7 70 85, AddSleepData 10 8 60 90]"

definition main_sleep_ops :: "operation list" where
  "main_sleep_ops =
     [AddSleepData 0 (7857 / 1000) 70 85,
      AddSleepData 86400000000 (7857 / 1000) 80 85,
      AddSleepData 172800000000 (7857 / 1000) 70 85,
      AddSleepData 259200000000 (7857 / 1000) 80 85,
      AddSleepData 345600000000 (7857 / 1000) 70 85,
      AddSleepData 432000000000 (7857 / 1000) 80 85,
      AddSleepData 518400000000 (7857 / 1000) 70 85]"

text \<open>
  The report that \<^verbatim>\<open>generate_report\<close> assembles, as a function of the sleep-debt metric
  and of the model after the upsert.
\<close>

definition assemble_report ::
  "string \<Rightarrow> datetime \<Rightarrow> datetime \<Rightarrow> datetime \<Rightarrow> datetime option \<Rightarrow> datetime option \<Rightarrow>
   HealthMetric \<Rightarrow> HealthLP \<Rightarrow> report" where
  "assemble_report email rdate period_start period_end reference_start reference_end
     sleep_debt_metric lp_model =
     \<lparr>patient_email = email, report_date = rdate,
      period = \<lparr>p_start = period_start, p_end = period_end,
                 p_days = timedelta_days period_end period_start + 1\<rparr>,
      reference_period =
        (case (reference_start, reference_end) of
           (Some rs, Some re) \<Rightarrow>
             Some \<lparr>p_start = rs, p_end = re, p_days = timedelta_days re rs + 1\<rparr>
         | _ \<Rightarrow> None),
      total_flagged = fst (get_total_flagged_count lp_model),
      flagged_by_category = fst (evaluate_all_metrics lp_model),
      health_score = fst (optimize_health_score lp_model),
      sleep_debt = \<lparr>sd_value = value sleep_debt_metric,
                    sd_is_flagged = is_flagged sleep_debt_metric,
                    sd_target = target_sleep_hours lp_model\<rparr>\<rparr>"

section \<open>Basic facts\<close>

lemmas model_defs = HealthLP_init_def HealthMetric_init_def check_flag_def add_metric_def
  add_sleep_data_def calculate_sleep_debt_def get_sleep_debt_metric_def
  default_max_acceptable_debt_def evaluate_all_metrics_def append_flagged_def
  get_total_flagged_count_def category_weights_def category_weight_def normalized_clamped_def
  metric_score_def optimize_health_score_def reset_def generate_report_def timedelta_days_def

subsection \<open>What each method does to the state\<close>

lemma calculate_sleep_debt_state: "snd (calculate_sleep_debt s e m) = m"
  by (simp add: calculate_sleep_debt_def Let_def)

lemma get_sleep_debt_metric_state: "snd (get_sleep_debt_metric s e mx m) = m"
  by (simp add: get_sleep_debt_metric_def calculate_sleep_debt_def Let_def)

lemma evaluate_all_metrics_state: "snd (evaluate_all_metrics m) = m"
  by (simp add: evaluate_all_metrics_def)

lemma get_total_flagged_count_state: "snd (get_total_flagged_count m) = m"
  by (simp add: get_total_flagged_count_def)

lemma optimize_health_score_state: "snd (optimize_health_score m) = m"
  by (simp add: optimize_health_score_def Let_def split: prod.splits)

lemma add_metric_state:
  "snd (add_metric n v lo hi c m) = m\<lparr>metrics := metrics m @ [fst (add_metric n v lo hi c m)]\<rparr>"
  by (simp add: add_metric_def Let_def)

lemma add_sleep_data_metrics: "metrics (snd (add_sleep_data d h q e m)) = metrics m"
  by (simp add: add_sleep_data_def Let_def)

lemma generate_report_state:
  "snd (generate_report email rd ps pe rs re m) =
     m\<lparr>metrics := upsert_sleep_debt
          (fst (get_sleep_debt_metric ps pe default_max_acceptable_debt m)) (metrics m)\<rparr>"
  by (simp add: generate_report_def get_sleep_debt_metric_def calculate_sleep_debt_def
      evaluate_all_metrics_def get_total_flagged_count_def optimize_health_score_def
      upsert_sleep_debt_def Let_def split: prod.splits option.splits)

subsection \<open>The first index and the upsert\<close>

lemma next_index_None: "next_index P xs k = None \<longleftrightarrow> (\<forall>x\<in>set xs. \<not> P x)"
  by (induction xs arbitrary: k) auto

lemma next_index_Some:
  "next_index P xs k = Some i \<Longrightarrow>
     k \<le> i \<and> i - k < length xs \<and> P (xs ! (i - k)) \<and> (\<forall>j < i - k. \<not> P (xs ! j))"
proof (induction xs arbitrary: k)
  case Nil
  then show ?case by simp
next
  case (Cons x xs)
  show ?case
  proof (cases "P x")
    case True
    with Cons.prems show ?thesis by simp
  next
    case False
    with Cons.prems have ni: "next_index P xs (Suc k) = Some i" by simp
    from Cons.IH [OF ni] have h: "Suc k \<le> i" "i - Suc k < length xs" "P (xs ! (i - Suc k))"
      "\<forall>j < i - Suc k. \<not> P (xs ! j)" by auto
    from h(1) have eq: "i - k = Suc (i - Suc k)" by arith
    have "\<forall>j < i - k. \<not> P ((x # xs) ! j)"
    proof (intro allI impI)
      fix j assume "j < i - k"
      then show "\<not> P ((x # xs) ! j)" using False h(4) eq by (cases j) auto
    qed
    with h eq show ?thesis by auto
  qed
qed

lemma upsert_rec_gen:
  "(case next_index (\<lambda>m. name m = ''Sleep Debt'') ms k of
        Some i \<Rightarrow> ms[i - k := sdm] | None \<Rightarrow> ms @ [sdm]) = upsert_rec sdm ms"
proof (induction ms arbitrary: k)
  case Nil
  then show ?case by simp
next
  case (Cons x xs)
  show ?case
  proof (cases "name x = ''Sleep Debt''")
    case True
    then show ?thesis by simp
  next
    case False
    show ?thesis
    proof (cases "next_index (\<lambda>m. name m = ''Sleep Debt'') xs (Suc k)")
      case None
      with False Cons.IH [of "Suc k"] show ?thesis by simp
    next
      case (Some i)
      from next_index_Some [OF Some] have "Suc k \<le> i" by simp
      then have eq: "i - k = Suc (i - Suc k)" by arith
      from False Some Cons.IH [of "Suc k"] eq show ?thesis by simp
    qed
  qed
qed

lemma upsert_sleep_debt_rec: "upsert_sleep_debt sdm ms = upsert_rec sdm ms"
  using upsert_rec_gen [where k = 0 and ms = ms and sdm = sdm] by (simp add: upsert_sleep_debt_def split: option.splits)

lemma set_upsert: "set (upsert_sleep_debt sdm ms) \<subseteq> insert sdm (set ms)"
  unfolding upsert_sleep_debt_rec by (induction ms) auto

lemma upsert_others:
  "name sdm = ''Sleep Debt'' \<Longrightarrow>
   filter (\<lambda>x. name x \<noteq> ''Sleep Debt'') (upsert_sleep_debt sdm ms) =
   filter (\<lambda>x. name x \<noteq> ''Sleep Debt'') ms"
  unfolding upsert_sleep_debt_rec by (induction ms) auto

lemma upsert_exactly_one:
  "name sdm = ''Sleep Debt'' \<Longrightarrow> length (filter (\<lambda>x. name x = ''Sleep Debt'') ms) \<le> 1 \<Longrightarrow>
   filter (\<lambda>x. name x = ''Sleep Debt'') (upsert_sleep_debt sdm ms) = [sdm]"
  unfolding upsert_sleep_debt_rec by (induction ms) (auto simp: filter_empty_conv)

lemma upsert_idem:
  "name sdm = ''Sleep Debt'' \<Longrightarrow> name sdm' = ''Sleep Debt'' \<Longrightarrow>
   upsert_sleep_debt sdm' (upsert_sleep_debt sdm ms) = upsert_sleep_debt sdm' ms"
  unfolding upsert_sleep_debt_rec by (induction ms) auto

lemma upsert_length_count:
  "name sdm = ''Sleep Debt'' \<Longrightarrow>
   length (filter (\<lambda>x. name x = ''Sleep Debt'') (upsert_sleep_debt sdm ms)) =
   max 1 (length (filter (\<lambda>x. name x = ''Sleep Debt'') ms))"
  unfolding upsert_sleep_debt_rec by (induction ms) auto

subsection \<open>Flags\<close>

lemma check_flag_ok: "flag_ok (snd (check_flag x))"
  by (simp add: check_flag_def flag_ok_def Let_def)

lemma get_sleep_debt_metric_ok: "flag_ok (fst (get_sleep_debt_metric s e mx m))"
  by (simp add: get_sleep_debt_metric_def calculate_sleep_debt_def Let_def check_flag_ok)

lemma add_metric_ok: "flag_ok (fst (add_metric n v lo hi c m))"
  by (simp add: add_metric_def Let_def check_flag_ok)

lemma exec_flag_ok:
  assumes "\<forall>x\<in>set (metrics m). flag_ok x"
  shows "\<forall>x\<in>set (metrics (exec op m)). flag_ok x"
proof (cases op)
  case (AddMetric n v lo hi c)
  with assms show ?thesis by (simp add: add_metric_state add_metric_ok)
next
  case (AddSleepData d h q e)
  with assms show ?thesis by (simp add: add_sleep_data_metrics)
next
  case (CalculateSleepDebt s e)
  with assms show ?thesis by (simp add: calculate_sleep_debt_state)
next
  case (GetSleepDebtMetric s e mx)
  with assms show ?thesis by (simp add: get_sleep_debt_metric_state)
next
  case EvaluateAllMetrics
  with assms show ?thesis by (simp add: evaluate_all_metrics_state)
next
  case GetTotalFlaggedCount
  with assms show ?thesis by (simp add: get_total_flagged_count_state)
next
  case OptimizeHealthScore
  with assms show ?thesis by (simp add: optimize_health_score_state)
next
  case Reset
  then show ?thesis by (simp add: reset_def)
next
  case (GenerateReport email rd ps pe rs re)
  have "set (metrics (exec op m)) \<subseteq>
          insert (fst (get_sleep_debt_metric ps pe default_max_acceptable_debt m)) (set (metrics m))"
    using GenerateReport set_upsert by (simp add: generate_report_state)
  with assms get_sleep_debt_metric_ok show ?thesis by blast
qed

lemma run_flag_ok:
  "\<forall>x\<in>set (metrics m). flag_ok x \<Longrightarrow> \<forall>x\<in>set (metrics (run ops m)). flag_ok x"
proof (induction ops arbitrary: m)
  case Nil
  then show ?case by simp
next
  case (Cons op ops)
  from Cons.prems have "\<forall>x\<in>set (metrics (exec op m)). flag_ok x" by (rule exec_flag_ok)
  then show ?case using Cons.IH by simp
qed

lemma demo_metrics: "metrics (run demo_ops (HealthLP_init 8)) =
      [\<lparr>name = ''Steps'', value = 8500, lower_threshold = 10000, upper_threshold = 20000,
        category = ''Activity'', is_flagged = True\<rparr>,
       \<lparr>name = ''Sleep Debt'', value = 1, lower_threshold = 0, upper_threshold = 99 / 100,
        category = ''Sleep'', is_flagged = True\<rparr>,
       \<lparr>name = ''VO2 Max'', value = 42, lower_threshold = 40, upper_threshold = 60,
        category = ''Cardiovascular'', is_flagged = False\<rparr>]"
  by (simp add: demo_ops_def model_defs Let_def)

subsection \<open>The sleep-debt loop\<close>

lemma sleep_debt_loop_sum:
  "sleep_debt_loop target xs acc =
     acc + sum_list (map (\<lambda>s. max 0 (target - sleep_duration_hours s)) xs)"
  by (induction xs arbitrary: acc) (auto simp: Let_def max_def)

lemma sum_list_max_filter:
  "sum_list (map (\<lambda>s. max 0 (target - sleep_duration_hours s)) xs) =
   sum_list (map (\<lambda>s. target - sleep_duration_hours s)
     (filter (\<lambda>s. sleep_duration_hours s < target) xs))"
  by (induction xs) (auto simp: max_def)

lemma sum_list_max_nonneg:
  "0 \<le> sum_list (map (\<lambda>s. max 0 (target - sleep_duration_hours s)) xs)"
  by (rule sum_list_nonneg) auto

lemma ledger_history:
  "sleep_history (run ledger_ops (HealthLP_init 8)) =
     [\<lparr>date = 10, sleep_duration_hours = 9, sleep_quality_score = 70, sleep_efficiency = 85\<rparr>,
      \<lparr>date = 15, sleep_duration_hours = 15 / 2, sleep_quality_score = 70, sleep_efficiency = 85\<rparr>,
      \<lparr>date = 20, sleep_duration_hours = 6, sleep_quality_score = 70, sleep_efficiency = 85\<rparr>,
      \<lparr>date = 30, sleep_duration_hours = 5, sleep_quality_score = 70, sleep_efficiency = 85\<rparr>]"
  by (simp add: ledger_ops_def model_defs Let_def)

lemma ledger_target: "target_sleep_hours (run ledger_ops (HealthLP_init 8)) = 8"
  by (simp add: ledger_ops_def model_defs Let_def)

subsection \<open>The sleep-debt metric and the report\<close>

lemma get_sleep_debt_metric_fst:
  "fst (get_sleep_debt_metric s e mx m) =
     \<lparr>name = ''Sleep Debt'', value = fst (calculate_sleep_debt s e m), lower_threshold = 0,
      upper_threshold = mx, category = ''Sleep'',
      is_flagged = (fst (calculate_sleep_debt s e m) < 0 \<or> fst (calculate_sleep_debt s e m) > mx)\<rparr>"
  by (simp add: get_sleep_debt_metric_def calculate_sleep_debt_def HealthMetric_init_def
      check_flag_def Let_def)

lemma get_sleep_debt_metric_name: "name (fst (get_sleep_debt_metric s e mx m)) = ''Sleep Debt''"
  by (simp add: get_sleep_debt_metric_fst)

lemma calculate_sleep_debt_metrics_irrelevant:
  "fst (calculate_sleep_debt s e (m\<lparr>metrics := ms\<rparr>)) = fst (calculate_sleep_debt s e m)"
  by (simp add: calculate_sleep_debt_def Let_def)

lemma get_sleep_debt_metric_metrics_irrelevant:
  "fst (get_sleep_debt_metric s e mx (m\<lparr>metrics := ms\<rparr>)) = fst (get_sleep_debt_metric s e mx m)"
  by (simp add: get_sleep_debt_metric_fst calculate_sleep_debt_metrics_irrelevant)

lemma generate_report_alt:
  "generate_report email rd ps pe rs re m =
     (assemble_report email rd ps pe rs re
        (fst (get_sleep_debt_metric ps pe default_max_acceptable_debt m))
        (m\<lparr>metrics := upsert_sleep_debt
          (fst (get_sleep_debt_metric ps pe default_max_acceptable_debt m)) (metrics m)\<rparr>),
      m\<lparr>metrics := upsert_sleep_debt
          (fst (get_sleep_debt_metric ps pe default_max_acceptable_debt m)) (metrics m)\<rparr>)"
  by (simp add: generate_report_def assemble_report_def upsert_sleep_debt_def Let_def
      case_prod_beta get_sleep_debt_metric_state evaluate_all_metrics_state
      get_total_flagged_count_state optimize_health_score_state split: option.splits)

lemma upsert_nth_other:
  "name sdm = ''Sleep Debt'' \<Longrightarrow> i < length ms \<Longrightarrow> name (ms ! i) \<noteq> ''Sleep Debt'' \<Longrightarrow>
   upsert_sleep_debt sdm ms ! i = ms ! i"
  unfolding upsert_sleep_debt_rec
  by (induction ms arbitrary: i) (auto simp: nth_Cons split: nat.splits)

lemma upsert_at_index:
  "i < length ms \<Longrightarrow> name (ms ! i) = ''Sleep Debt'' \<Longrightarrow>
   length (filter (\<lambda>x. name x = ''Sleep Debt'') ms) \<le> 1 \<Longrightarrow>
   upsert_sleep_debt sdm ms = ms[i := sdm]"
  unfolding upsert_sleep_debt_rec
proof (induction ms arbitrary: i)
  case Nil
  then show ?case by simp
next
  case (Cons x xs)
  show ?case
  proof (cases "name x = ''Sleep Debt''")
    case True
    with Cons.prems(3) have none: "\<forall>y\<in>set xs. name y \<noteq> ''Sleep Debt''"
      by (simp add: filter_empty_conv)
    have "i = 0"
    proof (cases i)
      case 0
      then show ?thesis .
    next
      case (Suc k)
      with Cons.prems(1,2) have "xs ! k \<in> set xs" "name (xs ! k) = ''Sleep Debt''" by simp_all
      with none show ?thesis by blast
    qed
    with True show ?thesis by simp
  next
    case False
    with Cons.prems(2) obtain k where k: "i = Suc k" by (cases i) auto
    from Cons.prems k False have "upsert_rec sdm xs = xs[k := sdm]"
      by (intro Cons.IH) simp_all
    with False k show ?thesis by simp
  qed
qed

lemma upsert_absent:
  "\<forall>x\<in>set ms. name x \<noteq> ''Sleep Debt'' \<Longrightarrow> upsert_sleep_debt sdm ms = ms @ [sdm]"
  unfolding upsert_sleep_debt_rec by (induction ms) auto

lemma sum_deficits_const:
  "\<forall>x\<in>set xs. sleep_duration_hours x = h \<Longrightarrow> h < target \<Longrightarrow>
   sum_list (map (\<lambda>s. max 0 (target - sleep_duration_hours s)) xs) =
     real (length xs) * (target - h)"
  by (induction xs) (simp_all add: max_def algebra_simps)

lemma sleep_debt_loop_const:
  "\<forall>x\<in>set xs. sleep_duration_hours x = h \<Longrightarrow> h < target \<Longrightarrow>
   sleep_debt_loop target xs acc = acc + real (length xs) * (target - h)"
  by (simp only: sleep_debt_loop_sum sum_deficits_const)

subsection \<open>Scores and weights\<close>

lemma category_weight_pos: "0 < category_weight c"
  by (simp add: category_weight_def category_weights_def)

lemma normalized_clamped_bounds: "0 \<le> normalized_clamped x \<and> normalized_clamped x \<le> 1"
  by (simp add: normalized_clamped_def Let_def)

lemma metric_score_bounds: "0 \<le> metric_score x \<and> metric_score x \<le> 1"
  using normalized_clamped_bounds [of x] by (simp add: metric_score_def Let_def)

lemma score_loop_bounds:
  "0 \<le> ts \<Longrightarrow> ts \<le> tw \<Longrightarrow> score_loop xs ts tw = (ts', tw') \<Longrightarrow>
     0 \<le> ts' \<and> ts' \<le> tw' \<and> tw \<le> tw' \<and> (xs \<noteq> [] \<longrightarrow> tw < tw')"
proof (induction xs arbitrary: ts tw)
  case Nil
  then show ?case by simp
next
  case (Cons x xs)
  let ?w = "category_weight (category x)"
  let ?s = "metric_score x"
  have w: "0 < ?w" by (rule category_weight_pos)
  have s: "0 \<le> ?s" "?s \<le> 1" using metric_score_bounds [of x] by auto
  have sw0: "0 \<le> ?s * ?w" using s w by simp
  have sw1: "?s * ?w \<le> ?w" using s w by (simp add: mult_left_le_one_le)
  have a: "0 \<le> ts + ?s * ?w" using Cons.prems(1) sw0 by simp
  have b: "ts + ?s * ?w \<le> tw + ?w" using Cons.prems(2) sw1 by simp
  have c: "score_loop xs (ts + ?s * ?w) (tw + ?w) = (ts', tw')"
    using Cons.prems(3) by (simp add: Let_def)
  from Cons.IH [OF a b c] w show ?case by simp
qed

lemma percent_bounds: "0 \<le> (q::real) \<Longrightarrow> q \<le> 1 \<Longrightarrow> 0 \<le> q * 100 \<and> q * 100 \<le> 100"
  by simp

subsection \<open>Sorted sleep history\<close>

lemma add_sleep_data_history:
  "sleep_history (snd (add_sleep_data d h q e m)) =
     sort_key date (sleep_history m @
       [\<lparr>date = d, sleep_duration_hours = h, sleep_quality_score = q, sleep_efficiency = e\<rparr>])"
  by (simp add: add_sleep_data_def Let_def)

lemma exec_sorted:
  assumes "sorted (map date (sleep_history m))"
  shows "sorted (map date (sleep_history (exec op m)))"
proof (cases op)
  case (AddSleepData d h q e)
  then show ?thesis by (simp only: exec.simps add_sleep_data_history sorted_sort_key)
next
  case Reset
  then show ?thesis by (simp add: reset_def)
qed (use assms in \<open>simp_all add: add_metric_state calculate_sleep_debt_state
      get_sleep_debt_metric_state evaluate_all_metrics_state get_total_flagged_count_state
      optimize_health_score_state generate_report_state\<close>)

lemma run_sorted:
  "sorted (map date (sleep_history m)) \<Longrightarrow> sorted (map date (sleep_history (run ops m)))"
proof (induction ops arbitrary: m)
  case Nil
  then show ?case by simp
next
  case (Cons op ops)
  from Cons.prems have "sorted (map date (sleep_history (exec op m)))" by (rule exec_sorted)
  then show ?case using Cons.IH by simp
qed

subsection \<open>The concrete runs\<close>

lemma demo_history:
  "sleep_history (run demo_ops (HealthLP_init 8)) =
     [\<lparr>date = 0, sleep_duration_hours = 7, sleep_quality_score = 70, sleep_efficiency = 85\<rparr>]"
  by (simp add: demo_ops_def model_defs Let_def)

lemma demo_target: "target_sleep_hours (run demo_ops (HealthLP_init 8)) = 8"
  by (simp add: demo_ops_def model_defs Let_def)

lemma demo_debt_later: "fst (get_sleep_debt_metric 5 9 default_max_acceptable_debt (run demo_ops (HealthLP_init 8))) =
   \<lparr>name = ''Sleep Debt'', value = 0, lower_threshold = 0, upper_threshold = 99 / 100,
        category = ''Sleep'', is_flagged = False\<rparr>"
  by (simp add: get_sleep_debt_metric_fst calculate_sleep_debt_def demo_history demo_target
      default_max_acceptable_debt_def)

lemma empty_debt: "fst (get_sleep_debt_metric 5 9 default_max_acceptable_debt (HealthLP_init 8)) =
   \<lparr>name = ''Sleep Debt'', value = 0, lower_threshold = 0, upper_threshold = 99 / 100,
        category = ''Sleep'', is_flagged = False\<rparr>"
  by (simp add: get_sleep_debt_metric_fst calculate_sleep_debt_def HealthLP_init_def
      default_max_acceptable_debt_def)

lemma degenerate_metric_eq: "degenerate_metric = \<lparr>name = ''Body Temperature'', value = 5, lower_threshold = 10,
   upper_threshold = 10, category = ''Vitals'', is_flagged = True\<rparr>"
  by (simp add: degenerate_metric_def model_defs Let_def)

lemma steps_metric_eq: "steps_metric =
  \<lparr>name = ''Steps'', value = 8500, lower_threshold = 10000, upper_threshold = 20000,
        category = ''Activity'', is_flagged = True\<rparr>"
  by (simp add: steps_metric_def model_defs Let_def)

lemma vo2_metric_eq: "vo2_metric =
  \<lparr>name = ''VO2 Max'', value = 42, lower_threshold = 40, upper_threshold = 60,
        category = ''Cardiovascular'', is_flagged = False\<rparr>"
  by (simp add: vo2_metric_def model_defs Let_def)

lemma duplicate_history:
  "sleep_history (run duplicate_ops (HealthLP_init 8)) =
     [\<lparr>date = 10, sleep_duration_hours = 7, sleep_quality_score = 70, sleep_efficiency = 85\<rparr>,
      \<lparr>date = 10, sleep_duration_hours = 8, sleep_quality_score = 60, sleep_efficiency = 90\<rparr>,
      \<lparr>date = 20, sleep_duration_hours = 6, sleep_quality_score = 70, sleep_efficiency = 85\<rparr>]"
  by (simp add: duplicate_ops_def model_defs Let_def)

lemma main_history:
  "sleep_history (run main_sleep_ops (HealthLP_init 8)) =
     [\<lparr>date = 0, sleep_duration_hours = 7857 / 1000, sleep_quality_score = 70, sleep_efficiency = 85\<rparr>,
      \<lparr>date = 86400000000, sleep_duration_hours = 7857 / 1000, sleep_quality_score = 80, sleep_efficiency = 85\<rparr>,
      \<lparr>date = 172800000000, sleep_duration_hours = 7857 / 1000, sleep_quality_score = 70, sleep_efficiency = 85\<rparr>,
      \<lparr>date = 259200000000, sleep_duration_hours = 7857 / 1000, sleep_quality_score = 80, sleep_efficiency = 85\<rparr>,
      \<lparr>date = 345600000000, sleep_duration_hours = 7857 / 1000, sleep_quality_score = 70, sleep_efficiency = 85\<rparr>,
      \<lparr>date = 432000000000, sleep_duration_hours = 7857 / 1000, sleep_quality_score = 80, sleep_efficiency = 85\<rparr>,
      \<lparr>date = 518400000000, sleep_duration_hours = 7857 / 1000, sleep_quality_score = 70, sleep_efficiency = 85\<rparr>]"
  by (simp add: main_sleep_ops_def model_defs Let_def)

lemma main_target: "target_sleep_hours (run main_sleep_ops (HealthLP_init 8)) = 8"
  by (simp add: main_sleep_ops_def model_defs Let_def)

section \<open>The claims\<close>

text \<open>
  C1. Starting from a freshly constructed model, after any sequence of public operations
  (adding metrics or sleep data, generating reports, resetting, any query) every metric in
  the store has \<open>is_flagged = (value < lower_threshold \<or> value > upper_threshold)\<close>.
  Each single operation preserves this property of the store.
\<close>

theorem flag_never_stale:
  "(\<forall>x\<in>set (metrics (run ops (HealthLP_init target))).
      is_flagged x = (value x < lower_threshold x \<or> value x > upper_threshold x)) \<and>
   ((\<forall>x\<in>set (metrics m). flag_ok x) \<longrightarrow> (\<forall>x\<in>set (metrics (exec op m)). flag_ok x))"
proof
  have "\<forall>x\<in>set (metrics (HealthLP_init target)). flag_ok x" by (simp add: HealthLP_init_def)
  then have "\<forall>x\<in>set (metrics (run ops (HealthLP_init target))). flag_ok x" by (rule run_flag_ok)
  then show "\<forall>x\<in>set (metrics (run ops (HealthLP_init target))).
      is_flagged x = (value x < lower_threshold x \<or> value x > upper_threshold x)"
    by (simp add: flag_ok_def)
next
  show "(\<forall>x\<in>set (metrics m). flag_ok x) \<longrightarrow> (\<forall>x\<in>set (metrics (exec op m)). flag_ok x)"
    using exec_flag_ok by blast
qed

text \<open>The run \<^const>\<open>demo_ops\<close> leaves three metrics in the store, two of them flagged.\<close>

theorem flag_never_stale_witness:
  "metrics (run demo_ops (HealthLP_init 8)) ! 1 \<in> set (metrics (run demo_ops (HealthLP_init 8))) \<and>
   is_flagged (metrics (run demo_ops (HealthLP_init 8)) ! 1) =
     (value (metrics (run demo_ops (HealthLP_init 8)) ! 1)
        < lower_threshold (metrics (run demo_ops (HealthLP_init 8)) ! 1) \<or>
      value (metrics (run demo_ops (HealthLP_init 8)) ! 1)
        > upper_threshold (metrics (run demo_ops (HealthLP_init 8)) ! 1)) \<and>
   is_flagged (metrics (run demo_ops (HealthLP_init 8)) ! 1) \<and>
   flag_ok (hd (metrics (exec (AddMetric ''Steps'' 8500 10000 20000 ''Activity'') (HealthLP_init 8))))"
proof -
  let ?ms = "metrics (run demo_ops (HealthLP_init 8))"
  let ?op = "AddMetric ''Steps'' 8500 10000 20000 ''Activity''"
  note inst = flag_never_stale [of demo_ops 8 "HealthLP_init 8" ?op]
  have mem: "?ms ! 1 \<in> set ?ms" by (simp add: demo_metrics)
  from inst have "\<forall>x\<in>set ?ms.
      is_flagged x = (value x < lower_threshold x \<or> value x > upper_threshold x)"
    by (rule conjunct1)
  then have eq: "is_flagged (?ms ! 1) =
      (value (?ms ! 1) < lower_threshold (?ms ! 1) \<or> value (?ms ! 1) > upper_threshold (?ms ! 1))"
    using mem by (rule bspec)
  have fl: "is_flagged (?ms ! 1)" by (simp add: demo_metrics)
  have pre: "\<forall>x\<in>set (metrics (HealthLP_init 8)). flag_ok x" by (simp add: HealthLP_init_def)
  from inst have "(\<forall>x\<in>set (metrics (HealthLP_init 8)). flag_ok x) \<longrightarrow>
      (\<forall>x\<in>set (metrics (exec ?op (HealthLP_init 8))). flag_ok x)"
    by (rule conjunct2)
  with pre have post: "\<forall>x\<in>set (metrics (exec ?op (HealthLP_init 8))). flag_ok x" by (rule rev_mp)
  have "hd (metrics (exec ?op (HealthLP_init 8))) \<in> set (metrics (exec ?op (HealthLP_init 8)))"
    by (simp add: HealthLP_init_def add_metric_def Let_def)
  with post have "flag_ok (hd (metrics (exec ?op (HealthLP_init 8))))" by blast
  with mem eq fl show ?thesis by blast
qed

text \<open>
  C2. \<^verbatim>\<open>calculate_sleep_debt\<close> returns the sum, over the stored records whose date lies in
  the closed range, of \<open>max 0 (target_sleep_hours - sleep_duration_hours)\<close>; this is the sum
  of the deficits of the in-range records that sleep less than the target. The result is
  never negative, a record that meets the target leaves the running total as it is, and the
  result is 0 when no record lies in the range.
\<close>

theorem sleep_debt_is_sum_of_positive_deficits:
  "fst (calculate_sleep_debt start_date end_date m) =
     sum_list (map (\<lambda>s. max 0 (target_sleep_hours m - sleep_duration_hours s))
       (filter (\<lambda>s. start_date \<le> date s \<and> date s \<le> end_date) (sleep_history m))) \<and>
   fst (calculate_sleep_debt start_date end_date m) =
     sum_list (map (\<lambda>s. target_sleep_hours m - sleep_duration_hours s)
       (filter (\<lambda>s. sleep_duration_hours s < target_sleep_hours m)
         (filter (\<lambda>s. start_date \<le> date s \<and> date s \<le> end_date) (sleep_history m)))) \<and>
   0 \<le> fst (calculate_sleep_debt start_date end_date m) \<and>
   (target_sleep_hours m \<le> sleep_duration_hours r \<longrightarrow>
      sleep_debt_loop (target_sleep_hours m) (r # rest) acc =
      sleep_debt_loop (target_sleep_hours m) rest acc) \<and>
   ((\<forall>s\<in>set (sleep_history m). \<not> (start_date \<le> date s \<and> date s \<le> end_date)) \<longrightarrow>
      fst (calculate_sleep_debt start_date end_date m) = 0)"
proof (intro conjI)
  let ?P = "\<lambda>s. start_date \<le> date s \<and> date s \<le> end_date"
  show eq: "fst (calculate_sleep_debt start_date end_date m) =
     sum_list (map (\<lambda>s. max 0 (target_sleep_hours m - sleep_duration_hours s))
       (filter ?P (sleep_history m)))"
    by (simp add: calculate_sleep_debt_def Let_def sleep_debt_loop_sum)
  show "fst (calculate_sleep_debt start_date end_date m) =
     sum_list (map (\<lambda>s. target_sleep_hours m - sleep_duration_hours s)
       (filter (\<lambda>s. sleep_duration_hours s < target_sleep_hours m)
         (filter ?P (sleep_history m))))"
    unfolding eq by (rule sum_list_max_filter)
  show "0 \<le> fst (calculate_sleep_debt start_date end_date m)"
    unfolding eq by (rule sum_list_max_nonneg)
  show "target_sleep_hours m \<le> sleep_duration_hours r \<longrightarrow>
      sleep_debt_loop (target_sleep_hours m) (r # rest) acc =
      sleep_debt_loop (target_sleep_hours m) rest acc"
    by (simp add: Let_def)
  show "(\<forall>s\<in>set (sleep_history m). \<not> ?P s) \<longrightarrow>
      fst (calculate_sleep_debt start_date end_date m) = 0"
  proof
    assume "\<forall>s\<in>set (sleep_history m). \<not> ?P s"
    then have "filter ?P (sleep_history m) = []" by (simp add: filter_empty_conv)
    then show "fst (calculate_sleep_debt start_date end_date m) = 0"
      unfolding eq by simp
  qed
qed

text \<open>
  With target 8 and records of 9, 7.5, 6 and 5 hours on days 10, 15, 20 and 30, the debt
  of the range 10 to 20 is 0.5 + 2.
\<close>

theorem sleep_debt_is_sum_of_positive_deficits_witness:
  "fst (calculate_sleep_debt 10 20 (run ledger_ops (HealthLP_init 8))) = 5 / 2 \<and>
   fst (calculate_sleep_debt 40 50 (run ledger_ops (HealthLP_init 8))) = 0 \<and>
   sleep_debt_loop 8
     [\<lparr>date = 10, sleep_duration_hours = 9, sleep_quality_score = 70, sleep_efficiency = 85\<rparr>] 3 = 3"
proof -
  let ?m = "run ledger_ops (HealthLP_init 8)"
  let ?r = "\<lparr>date = 10, sleep_duration_hours = 9, sleep_quality_score = 70, sleep_efficiency = 85\<rparr>"
  have a: "fst (calculate_sleep_debt 10 20 ?m) = 5 / 2"
    using sleep_debt_is_sum_of_positive_deficits [of 10 20 ?m ?r "[]" 3]
    by (simp add: ledger_history ledger_target)
  have out: "\<forall>s\<in>set (sleep_history ?m). \<not> (40 \<le> date s \<and> date s \<le> 50)"
    by (simp add: ledger_history)
  have b: "fst (calculate_sleep_debt 40 50 ?m) = 0"
    using sleep_debt_is_sum_of_positive_deficits [of 40 50 ?m ?r "[]" 3] out by blast
  have le: "target_sleep_hours ?m \<le> sleep_duration_hours ?r" by (simp add: ledger_target)
  have c: "sleep_debt_loop 8 [?r] 3 = 3"
    using sleep_debt_is_sum_of_positive_deficits [of 10 20 ?m ?r "[]" 3] le
    by (simp add: ledger_target)
  from a b c show ?thesis by blast
qed

text \<open>
  C3. When the store holds at most one metric named "Sleep Debt", after \<^verbatim>\<open>generate_report\<close>
  it holds exactly one, the metric computed for the requested period, whose value is the
  sleep debt of that period. A metric of that name already in the store is replaced at
  its index; when there is none, the new metric is appended at the end. After a second
  call, with any arguments, the store again holds exactly one such metric, the one
  computed for the period of the second call.
\<close>

theorem sleep_debt_upsert:
  assumes "length (filter (\<lambda>x. name x = ''Sleep Debt'') (metrics m)) \<le> 1"
  shows "filter (\<lambda>x. name x = ''Sleep Debt'')
           (metrics (snd (generate_report email rd ps pe rs re m))) =
         [fst (get_sleep_debt_metric ps pe default_max_acceptable_debt m)] \<and>
         value (fst (get_sleep_debt_metric ps pe default_max_acceptable_debt m)) =
           fst (calculate_sleep_debt ps pe m) \<and>
         (\<forall>i<length (metrics m). name (metrics m ! i) = ''Sleep Debt'' \<longrightarrow>
            metrics (snd (generate_report email rd ps pe rs re m)) =
            (metrics m)[i := fst (get_sleep_debt_metric ps pe default_max_acceptable_debt m)]) \<and>
         ((\<forall>x\<in>set (metrics m). name x \<noteq> ''Sleep Debt'') \<longrightarrow>
            metrics (snd (generate_report email rd ps pe rs re m)) =
            metrics m @ [fst (get_sleep_debt_metric ps pe default_max_acceptable_debt m)]) \<and>
         filter (\<lambda>x. name x = ''Sleep Debt'')
           (metrics (snd (generate_report email' rd' ps' pe' rs' re'
                       (snd (generate_report email rd ps pe rs re m))))) =
         [fst (get_sleep_debt_metric ps' pe' default_max_acceptable_debt m)] \<and>
         value (fst (get_sleep_debt_metric ps' pe' default_max_acceptable_debt m)) =
           fst (calculate_sleep_debt ps' pe' m)"
proof -
  let ?sdm = "fst (get_sleep_debt_metric ps pe default_max_acceptable_debt m)"
  let ?sdm' = "fst (get_sleep_debt_metric ps' pe' default_max_acceptable_debt m)"
  let ?m1 = "snd (generate_report email rd ps pe rs re m)"
  have n: "name ?sdm = ''Sleep Debt''" and n': "name ?sdm' = ''Sleep Debt''"
    by (rule get_sleep_debt_metric_name)+
  have one: "filter (\<lambda>x. name x = ''Sleep Debt'') (metrics ?m1) = [?sdm]"
    using n assms by (simp add: generate_report_state upsert_exactly_one)
  have v: "value ?sdm = fst (calculate_sleep_debt ps pe m)"
    and v': "value ?sdm' = fst (calculate_sleep_debt ps' pe' m)"
    by (simp_all add: get_sleep_debt_metric_fst)
  have at: "\<forall>i<length (metrics m). name (metrics m ! i) = ''Sleep Debt'' \<longrightarrow>
      metrics ?m1 = (metrics m)[i := ?sdm]"
    using assms by (simp add: generate_report_state upsert_at_index)
  have app: "(\<forall>x\<in>set (metrics m). name x \<noteq> ''Sleep Debt'') \<longrightarrow>
      metrics ?m1 = metrics m @ [?sdm]"
    by (simp add: generate_report_state upsert_absent)
  have sdm1: "fst (get_sleep_debt_metric ps' pe' default_max_acceptable_debt ?m1) = ?sdm'"
    by (simp add: generate_report_state get_sleep_debt_metric_metrics_irrelevant)
  have "length (filter (\<lambda>x. name x = ''Sleep Debt'') (metrics ?m1)) \<le> 1"
    by (simp add: one)
  then have two: "filter (\<lambda>x. name x = ''Sleep Debt'')
      (metrics (snd (generate_report email' rd' ps' pe' rs' re' ?m1))) = [?sdm']"
    using n' by (simp add: generate_report_state [of _ _ _ _ _ _ ?m1] sdm1 upsert_exactly_one)
  from one v at app two v' show ?thesis by blast
qed

text \<open>
  Replacement at index 1 in the store that \<^const>\<open>demo_ops\<close> builds, and the append to the
  empty store.
\<close>

theorem sleep_debt_upsert_witness:
  "length (filter (\<lambda>x. name x = ''Sleep Debt'') (metrics (run demo_ops (HealthLP_init 8)))) = 1 \<and>
   metrics (snd (generate_report ''example@email.com'' 16 5 9 None None
                   (run demo_ops (HealthLP_init 8)))) =
     [\<lparr>name = ''Steps'', value = 8500, lower_threshold = 10000, upper_threshold = 20000,
        category = ''Activity'', is_flagged = True\<rparr>,
      \<lparr>name = ''Sleep Debt'', value = 0, lower_threshold = 0, upper_threshold = 99 / 100,
        category = ''Sleep'', is_flagged = False\<rparr>,
      \<lparr>name = ''VO2 Max'', value = 42, lower_threshold = 40, upper_threshold = 60,
        category = ''Cardiovascular'', is_flagged = False\<rparr>] \<and>
   metrics (snd (generate_report ''example@email.com'' 16 5 9 None None (HealthLP_init 8))) =
     [\<lparr>name = ''Sleep Debt'', value = 0, lower_threshold = 0, upper_threshold = 99 / 100,
        category = ''Sleep'', is_flagged = False\<rparr>]"
proof -
  let ?m = "run demo_ops (HealthLP_init 8)"
  let ?e = "''example@email.com''"
  have cnt: "length (filter (\<lambda>x. name x = ''Sleep Debt'') (metrics ?m)) = 1"
    by (simp add: demo_metrics)
  then have le: "length (filter (\<lambda>x. name x = ''Sleep Debt'') (metrics ?m)) \<le> 1" by simp
  have idx: "1 < length (metrics ?m)" "name (metrics ?m ! 1) = ''Sleep Debt''"
    by (simp_all add: demo_metrics)
  from sleep_debt_upsert [OF le, of ?e 16 5 9 None None ?e 16 5 9 None None] idx
  have "metrics (snd (generate_report ?e 16 5 9 None None ?m)) =
      (metrics ?m)[1 := fst (get_sleep_debt_metric 5 9 default_max_acceptable_debt ?m)]"
    by blast
  then have a: "metrics (snd (generate_report ?e 16 5 9 None None ?m)) =
     [\<lparr>name = ''Steps'', value = 8500, lower_threshold = 10000, upper_threshold = 20000,
        category = ''Activity'', is_flagged = True\<rparr>,
      \<lparr>name = ''Sleep Debt'', value = 0, lower_threshold = 0, upper_threshold = 99 / 100,
        category = ''Sleep'', is_flagged = False\<rparr>,
      \<lparr>name = ''VO2 Max'', value = 42, lower_threshold = 40, upper_threshold = 60,
        category = ''Cardiovascular'', is_flagged = False\<rparr>]"
    by (simp add: demo_debt_later demo_metrics)
  have le0: "length (filter (\<lambda>x. name x = ''Sleep Debt'') (metrics (HealthLP_init 8))) \<le> 1"
    and none: "\<forall>x\<in>set (metrics (HealthLP_init 8)). name x \<noteq> ''Sleep Debt''"
    by (simp_all add: HealthLP_init_def)
  from sleep_debt_upsert [OF le0, of ?e 16 5 9 None None ?e 16 5 9 None None] none
  have "metrics (snd (generate_report ?e 16 5 9 None None (HealthLP_init 8))) =
      metrics (HealthLP_init 8) @
        [fst (get_sleep_debt_metric 5 9 default_max_acceptable_debt (HealthLP_init 8))]"
    by blast
  then have b: "metrics (snd (generate_report ?e 16 5 9 None None (HealthLP_init 8))) =
     [\<lparr>name = ''Sleep Debt'', value = 0, lower_threshold = 0, upper_threshold = 99 / 100,
        category = ''Sleep'', is_flagged = False\<rparr>]"
    by (simp add: empty_debt) (simp add: HealthLP_init_def)
  from cnt a b show ?thesis by blast
qed

text \<open>
  C4. \<^verbatim>\<open>optimize_health_score\<close> returns a number between 0 and 100 in every state, and
  exactly 100 when the store has no metric.
\<close>

theorem health_score_range:
  "0 \<le> fst (optimize_health_score m) \<and> fst (optimize_health_score m) \<le> 100 \<and>
   (metrics m = [] \<longrightarrow> fst (optimize_health_score m) = 100)"
proof (cases "metrics m = []")
  case True
  then show ?thesis by (simp add: optimize_health_score_def)
next
  case False
  obtain ts tw where st: "score_loop (metrics m) 0 0 = (ts, tw)"
    by (cases "score_loop (metrics m) 0 0")
  from score_loop_bounds [OF _ _ st] False have b: "0 \<le> ts" "ts \<le> tw" "0 < tw" by auto
  then have "0 \<le> ts / tw" "ts / tw \<le> 1" by simp_all
  then have q: "0 \<le> (ts / tw) * 100 \<and> (ts / tw) * 100 \<le> 100" by (rule percent_bounds)
  have "fst (optimize_health_score m) = (ts / tw) * 100"
    using False st b by (simp add: optimize_health_score_def)
  with q False show ?thesis by (simp only: simp_thms)
qed

text \<open>The empty store scores 100; the store built by \<^const>\<open>demo_ops\<close> scores 36.\<close>

theorem health_score_range_witness:
  "metrics (HealthLP_init 8) = [] \<and> fst (optimize_health_score (HealthLP_init 8)) = 100 \<and>
   fst (optimize_health_score (run demo_ops (HealthLP_init 8))) = 36"
proof -
  have e: "metrics (HealthLP_init 8) = []" by (simp add: HealthLP_init_def)
  with health_score_range [of "HealthLP_init 8"]
  have a: "fst (optimize_health_score (HealthLP_init 8)) = 100" by blast
  have b: "fst (optimize_health_score (run demo_ops (HealthLP_init 8))) = 36"
    by (simp add: optimize_health_score_def demo_metrics metric_score_def normalized_clamped_def
        category_weight_def category_weights_def Let_def)
  from e a b show ?thesis by blast
qed

text \<open>
  C5, as amended. For a metric whose upper threshold is above its lower threshold, the
  score is 0.3 or 0.7 when the metric is flagged (0.3 when the clamped normalised value is
  below 0.5, 0.7 otherwise) and the clamped normalised value, between 0 and 1, when it is
  not flagged. For a metric whose upper threshold is not above its lower threshold, the
  score is 0.5 when it is flagged and 1 when it is not. The loop adds the score times the
  category weight to the running total.
\<close>

theorem metric_score_cases:
  "(lower_threshold x < upper_threshold x \<and> is_flagged x \<longrightarrow>
      metric_score x = (if normalized_clamped x < 1 / 2 then 3 / 10 else 7 / 10)) \<and>
   (lower_threshold x < upper_threshold x \<and> \<not> is_flagged x \<longrightarrow>
      metric_score x = normalized_clamped x \<and> 0 \<le> metric_score x \<and> metric_score x \<le> 1) \<and>
   (upper_threshold x \<le> lower_threshold x \<longrightarrow>
      metric_score x = (if is_flagged x then 1 / 2 else 1)) \<and>
   score_loop (x # rest) total_score total_weight =
     score_loop rest (total_score + metric_score x * category_weight (category x))
       (total_weight + category_weight (category x))"
  using normalized_clamped_bounds [of x] by (simp add: metric_score_def Let_def)

text \<open>
  The claim as first stated fails: a metric added with value 5 and both thresholds 10 is
  flagged and scores 0.5, and a store holding only this metric has health score 50.
\<close>

theorem flagged_score_counterexample:
  "is_flagged degenerate_metric \<and> metric_score degenerate_metric = 1 / 2 \<and>
   metric_score degenerate_metric \<noteq> 3 / 10 \<and> metric_score degenerate_metric \<noteq> 7 / 10 \<and>
   fst (optimize_health_score
          (snd (add_metric ''Body Temperature'' 5 10 10 ''Vitals'' (HealthLP_init 8)))) = 50"
  by (simp add: degenerate_metric_def model_defs Let_def)

text \<open>The three cases, on the Steps metric, the VO2 Max metric and the degenerate one.\<close>

theorem metric_score_cases_witness:
  "is_flagged steps_metric \<and> normalized_clamped steps_metric = 0 \<and>
   metric_score steps_metric = 3 / 10 \<and>
   \<not> is_flagged vo2_metric \<and> metric_score vo2_metric = 1 / 10 \<and>
   upper_threshold degenerate_metric \<le> lower_threshold degenerate_metric \<and>
   metric_score degenerate_metric = 1 / 2"
proof -
  have s: "lower_threshold steps_metric < upper_threshold steps_metric \<and> is_flagged steps_metric"
    and sn: "normalized_clamped steps_metric = 0"
    by (simp_all add: steps_metric_eq normalized_clamped_def)
  with metric_score_cases [of steps_metric "[]" 0 0]
  have a: "metric_score steps_metric = 3 / 10" by simp
  have v: "lower_threshold vo2_metric < upper_threshold vo2_metric \<and> \<not> is_flagged vo2_metric"
    and vn: "normalized_clamped vo2_metric = 1 / 10"
    by (simp_all add: vo2_metric_eq normalized_clamped_def)
  with metric_score_cases [of vo2_metric "[]" 0 0]
  have b: "metric_score vo2_metric = 1 / 10" by simp
  have d: "upper_threshold degenerate_metric \<le> lower_threshold degenerate_metric"
    and df: "is_flagged degenerate_metric"
    by (simp_all add: degenerate_metric_eq)
  with metric_score_cases [of degenerate_metric "[]" 0 0]
  have c: "metric_score degenerate_metric = 1 / 2" by simp
  from s sn a v b d c show ?thesis by blast
qed

text \<open>
  C6. With target 8 and exactly seven records in the range, each of 7.857 hours, the sleep
  debt of the range is 1.001 hours, above the default threshold 0.99, and the metric
  returned is named "Sleep Debt", of category "Sleep", with lower threshold 0, and is
  flagged. Any value within 0.01 of this debt is flagged too. In any state, a debt of
  exactly 1 hour is flagged under the default threshold.
\<close>

theorem sleep_debt_week_flagged:
  assumes "target_sleep_hours m = 8"
    and "length (filter (\<lambda>s. start_date \<le> date s \<and> date s \<le> end_date) (sleep_history m)) = 7"
    and "\<forall>s\<in>set (filter (\<lambda>s. start_date \<le> date s \<and> date s \<le> end_date) (sleep_history m)).
           sleep_duration_hours s = 7857 / 1000"
  shows "fst (calculate_sleep_debt start_date end_date m) = 1001 / 1000 \<and>
         default_max_acceptable_debt < fst (calculate_sleep_debt start_date end_date m) \<and>
         fst (get_sleep_debt_metric start_date end_date default_max_acceptable_debt m) =
           \<lparr>name = ''Sleep Debt'', value = 1001 / 1000, lower_threshold = 0,
            upper_threshold = 99 / 100, category = ''Sleep'', is_flagged = True\<rparr> \<and>
         (\<forall>v. \<bar>v - fst (calculate_sleep_debt start_date end_date m)\<bar> \<le> 1 / 100 \<longrightarrow>
            is_flagged (snd (check_flag
              (HealthMetric_init ''Sleep Debt'' v 0 default_max_acceptable_debt ''Sleep'')))) \<and>
         (fst (calculate_sleep_debt s e m') = 1 \<longrightarrow>
            is_flagged (fst (get_sleep_debt_metric s e default_max_acceptable_debt m')))"
proof -
  let ?xs = "filter (\<lambda>s. start_date \<le> date s \<and> date s \<le> end_date) (sleep_history m)"
  have "sleep_debt_loop 8 ?xs 0 = 0 + real (length ?xs) * (8 - 7857 / 1000)"
    using assms(3) by (intro sleep_debt_loop_const) simp_all
  with assms(1,2) have debt: "fst (calculate_sleep_debt start_date end_date m) = 1001 / 1000"
    by (simp add: calculate_sleep_debt_def Let_def)
  have gt: "default_max_acceptable_debt < fst (calculate_sleep_debt start_date end_date m)"
    by (simp add: debt default_max_acceptable_debt_def)
  have metric: "fst (get_sleep_debt_metric start_date end_date default_max_acceptable_debt m) =
           \<lparr>name = ''Sleep Debt'', value = 1001 / 1000, lower_threshold = 0,
            upper_threshold = 99 / 100, category = ''Sleep'', is_flagged = True\<rparr>"
    by (simp add: get_sleep_debt_metric_fst debt default_max_acceptable_debt_def)
  have robust: "\<forall>v. \<bar>v - fst (calculate_sleep_debt start_date end_date m)\<bar> \<le> 1 / 100 \<longrightarrow>
            is_flagged (snd (check_flag
              (HealthMetric_init ''Sleep Debt'' v 0 default_max_acceptable_debt ''Sleep'')))"
    by (auto simp: debt check_flag_def HealthMetric_init_def default_max_acceptable_debt_def Let_def)
  have one: "fst (calculate_sleep_debt s e m') = 1 \<longrightarrow>
            is_flagged (fst (get_sleep_debt_metric s e default_max_acceptable_debt m'))"
    by (simp add: get_sleep_debt_metric_fst default_max_acceptable_debt_def)
  from debt gt metric robust one show ?thesis by blast
qed

text \<open>The seven nights of \<^verbatim>\<open>main.py\<close>.\<close>

theorem sleep_debt_week_flagged_witness:
  "target_sleep_hours (run main_sleep_ops (HealthLP_init 8)) = 8 \<and>
   length (filter (\<lambda>s. 0 \<le> date s \<and> date s \<le> 518400000000)
     (sleep_history (run main_sleep_ops (HealthLP_init 8)))) = 7 \<and>
   fst (calculate_sleep_debt 0 518400000000 (run main_sleep_ops (HealthLP_init 8))) = 1001 / 1000 \<and>
   is_flagged (fst (get_sleep_debt_metric 0 518400000000 default_max_acceptable_debt
     (run main_sleep_ops (HealthLP_init 8))))"
proof -
  let ?m = "run main_sleep_ops (HealthLP_init 8)"
  have t: "target_sleep_hours ?m = 8" by (rule main_target)
  have n: "length (filter (\<lambda>s. 0 \<le> date s \<and> date s \<le> 518400000000) (sleep_history ?m)) = 7"
    by (simp add: main_history)
  have d: "\<forall>s\<in>set (filter (\<lambda>s. 0 \<le> date s \<and> date s \<le> 518400000000) (sleep_history ?m)).
      sleep_duration_hours s = 7857 / 1000"
    by (simp add: main_history)
  from sleep_debt_week_flagged [OF t n d, of 0 0 ?m]
  have "fst (calculate_sleep_debt 0 518400000000 ?m) = 1001 / 1000"
    and "is_flagged (fst (get_sleep_debt_metric 0 518400000000 default_max_acceptable_debt ?m))"
    by simp_all
  with t n show ?thesis by blast
qed

text \<open>
  C7. After \<^verbatim>\<open>add_sleep_data\<close> the sleep history is sorted by date, whatever the state
  before, and it holds the records it held before and the new one, also when the date is
  already present. The history is sorted after any sequence of public operations on a
  fresh model, and every operation keeps a sorted history sorted.
\<close>

theorem sleep_history_sorted:
  "sorted (map date (sleep_history (snd (add_sleep_data d h q e m)))) \<and>
   mset (sleep_history (snd (add_sleep_data d h q e m))) =
     add_mset \<lparr>date = d, sleep_duration_hours = h, sleep_quality_score = q, sleep_efficiency = e\<rparr>
       (mset (sleep_history m)) \<and>
   sorted (map date (sleep_history (run ops (HealthLP_init target)))) \<and>
   (sorted (map date (sleep_history m)) \<longrightarrow> sorted (map date (sleep_history (exec op m))))"
proof (intro conjI)
  show "sorted (map date (sleep_history (snd (add_sleep_data d h q e m))))"
    by (simp only: add_sleep_data_history sorted_sort_key)
  show "mset (sleep_history (snd (add_sleep_data d h q e m))) =
     add_mset \<lparr>date = d, sleep_duration_hours = h, sleep_quality_score = q, sleep_efficiency = e\<rparr>
       (mset (sleep_history m))"
    by (simp add: add_sleep_data_history)
  have "sorted (map date (sleep_history (HealthLP_init target)))" by (simp add: HealthLP_init_def)
  then show "sorted (map date (sleep_history (run ops (HealthLP_init target))))"
    by (rule run_sorted)
  show "sorted (map date (sleep_history m)) \<longrightarrow> sorted (map date (sleep_history (exec op m)))"
    using exec_sorted by blast
qed

text \<open>A fourth record on a date that two records already have.\<close>

theorem sleep_history_sorted_witness:
  "sorted (map date (sleep_history (run duplicate_ops (HealthLP_init 8)))) \<and>
   sorted (map date (sleep_history (exec (AddSleepData 10 9 70 85) (run duplicate_ops (HealthLP_init 8))))) \<and>
   map date (sleep_history (exec (AddSleepData 10 9 70 85) (run duplicate_ops (HealthLP_init 8)))) =
     [10, 10, 10, 20]"
proof -
  let ?m = "run duplicate_ops (HealthLP_init 8)"
  note inst = sleep_history_sorted [of 10 9 70 85 ?m duplicate_ops 8 "AddSleepData 10 9 70 85"]
  from inst have a: "sorted (map date (sleep_history ?m))" by blast
  from inst a have b: "sorted (map date (sleep_history (exec (AddSleepData 10 9 70 85) ?m)))"
    by blast
  have c: "map date (sleep_history (exec (AddSleepData 10 9 70 85) ?m)) = [10, 10, 10, 20]"
    by (simp add: add_sleep_data_history duplicate_history)
  from a b c show ?thesis by blast
qed

text \<open>
  C8. \<^verbatim>\<open>get_sleep_debt_metric\<close> leaves the model as it is: the metric list, the sleep
  history and the target are those before the call. It returns the metric named
  "Sleep Debt", of category "Sleep", whose value is the sleep debt of the range, with lower
  threshold 0 and the given upper threshold, flagged according to its value.
\<close>

theorem sleep_debt_metric_is_pure_query:
  "snd (get_sleep_debt_metric s e mx m) = m \<and>
   metrics (snd (get_sleep_debt_metric s e mx m)) = metrics m \<and>
   sleep_history (snd (get_sleep_debt_metric s e mx m)) = sleep_history m \<and>
   target_sleep_hours (snd (get_sleep_debt_metric s e mx m)) = target_sleep_hours m \<and>
   exec (GetSleepDebtMetric s e mx) m = m \<and>
   fst (get_sleep_debt_metric s e mx m) =
     \<lparr>name = ''Sleep Debt'', value = fst (calculate_sleep_debt s e m), lower_threshold = 0,
      upper_threshold = mx, category = ''Sleep'',
      is_flagged = (fst (calculate_sleep_debt s e m) < 0 \<or> fst (calculate_sleep_debt s e m) > mx)\<rparr>"
  by (simp add: get_sleep_debt_metric_state get_sleep_debt_metric_fst)

text \<open>
  C9. \<^verbatim>\<open>generate_report\<close> leaves the sleep history and the target as they are, and the
  metrics whose name is not "Sleep Debt" are the same, in the same order and at the same
  indices, after the call as before.
\<close>

theorem report_frame:
  "sleep_history (snd (generate_report email rd ps pe rs re m)) = sleep_history m \<and>
   target_sleep_hours (snd (generate_report email rd ps pe rs re m)) = target_sleep_hours m \<and>
   filter (\<lambda>x. name x \<noteq> ''Sleep Debt'') (metrics (snd (generate_report email rd ps pe rs re m))) =
   filter (\<lambda>x. name x \<noteq> ''Sleep Debt'') (metrics m) \<and>
   (\<forall>i<length (metrics m). name (metrics m ! i) \<noteq> ''Sleep Debt'' \<longrightarrow>
      metrics (snd (generate_report email rd ps pe rs re m)) ! i = metrics m ! i)"
  by (simp add: generate_report_state upsert_others upsert_nth_other get_sleep_debt_metric_name)

text \<open>The Steps metric stays at index 0 of the store built by \<^const>\<open>demo_ops\<close>.\<close>

theorem report_frame_witness:
  "0 < length (metrics (run demo_ops (HealthLP_init 8))) \<and>
   name (metrics (run demo_ops (HealthLP_init 8)) ! 0) \<noteq> ''Sleep Debt'' \<and>
   metrics (snd (generate_report ''example@email.com'' 16 5 9 None None
                   (run demo_ops (HealthLP_init 8)))) ! 0 =
     \<lparr>name = ''Steps'', value = 8500, lower_threshold = 10000, upper_threshold = 20000,
        category = ''Activity'', is_flagged = True\<rparr>"
proof -
  let ?m = "run demo_ops (HealthLP_init 8)"
  have a: "0 < length (metrics ?m)" and b: "name (metrics ?m ! 0) \<noteq> ''Sleep Debt''"
    by (simp_all add: demo_metrics)
  from report_frame [of "''example@email.com''" 16 5 9 None None ?m] a b
  have "metrics (snd (generate_report ''example@email.com'' 16 5 9 None None ?m)) ! 0 =
      metrics ?m ! 0" by blast
  with a b show ?thesis by (simp add: demo_metrics)
qed

text \<open>
  C10. A second call of \<^verbatim>\<open>generate_report\<close> with the same arguments, on the model the
  first call left, returns the same report and leaves the same model.
\<close>

theorem generate_report_idempotent:
  "generate_report email rd ps pe rs re (snd (generate_report email rd ps pe rs re m)) =
   generate_report email rd ps pe rs re m"
proof -
  let ?sdm = "fst (get_sleep_debt_metric ps pe default_max_acceptable_debt m)"
  let ?m1 = "m\<lparr>metrics := upsert_sleep_debt ?sdm (metrics m)\<rparr>"
  have n: "name ?sdm = ''Sleep Debt''" by (rule get_sleep_debt_metric_name)
  have s1: "snd (generate_report email rd ps pe rs re m) = ?m1" by (rule generate_report_state)
  have sdm1: "fst (get_sleep_debt_metric ps pe default_max_acceptable_debt ?m1) = ?sdm"
    by (rule get_sleep_debt_metric_metrics_irrelevant)
  have "upsert_sleep_debt ?sdm (upsert_sleep_debt ?sdm (metrics m)) =
        upsert_sleep_debt ?sdm (metrics m)"
    using n n by (rule upsert_idem)
  then have m2: "?m1\<lparr>metrics := upsert_sleep_debt ?sdm (metrics ?m1)\<rparr> = ?m1" by simp
  have "generate_report email rd ps pe rs re ?m1 =
        (assemble_report email rd ps pe rs re ?sdm ?m1, ?m1)"
    unfolding generate_report_alt [of email rd ps pe rs re ?m1] sdm1 m2 ..
  also have "\<dots> = generate_report email rd ps pe rs re m"
    by (simp only: generate_report_alt [of email rd ps pe rs re m])
  finally show ?thesis by (simp only: s1)
qed

end
